theory Spec2Isabelle
  imports Main "HOL-Library.Sublist"
begin

section \<open>Errors\<close>

text \<open>
  A JavaScript error object, reduced to the fields the storage code inspects:
  \<open>err.status\<close> (HTTP status), \<open>err.code\<close> (a string such as \<open>ENOENT\<close> or, in one
  comparison, a number), \<open>err.remoteStatus\<close> (set by the uplink proxy) and the message.
  A missing field is \<open>None\<close>.
\<close>

datatype jsval = Str string | Num nat

datatype verr =
  VErr (status: "nat option") (code: "jsval option") (remoteStatus: "nat option") (message: string)

text \<open>
  Modelled from the spec: \<open>errorUtils\<close> and \<open>HTTP_STATUS\<close> of \<open>@verdaccio/core\<close> are not
  part of the sources at hand. Section 6 of the specification fixes the status of each
  error kind: NOT_FOUND 404, CONFLICT 409, SERVICE_UNAVAILABLE 503, INTERNAL_ERROR 500.
\<close>

definition getCode :: "nat \<Rightarrow> string \<Rightarrow> verr" where
  "getCode st msg = VErr (Some st) None None msg"

definition getInternalError :: "string \<Rightarrow> verr" where
  "getInternalError msg = getCode 500 msg"

definition getNotFound :: "string \<Rightarrow> verr" where
  "getNotFound msg = getCode 404 msg"

definition getServiceUnavailable :: verr where
  "getServiceUnavailable = getCode 503 ''resource temporarily unavailable''"

definition API_ERROR_NO_PACKAGE :: string where
  "API_ERROR_NO_PACKAGE = ''no such package available''"

text \<open>An error raised by the JavaScript runtime itself (no status, no code).\<close>

definition TypeError :: "string \<Rightarrow> verr" where
  "TypeError msg = VErr None None None (''TypeError: '' @ msg)"

text \<open>An error of the Node.js file or network layer: only \<open>err.code\<close> is set.\<close>

definition nodeError :: "string \<Rightarrow> verr" where
  "nodeError c = VErr None (Some (Str c)) None c"

subsection \<open>Constants of \<open>local-fs.ts\<close>\<close>

definition fileExist :: string where "fileExist = ''EEXISTS''"
definition noSuchFile :: string where "noSuchFile = ''ENOENT''"
definition resourceNotAvailable :: string where "resourceNotAvailable = ''EAGAIN''"
definition packageJSONFileName :: string where "packageJSONFileName = ''package.json''"

text \<open>\<open>fSError(message, code = 409)\<close>: an HTTP error whose \<open>code\<close> field is the message.\<close>

definition fSError :: "string \<Rightarrow> nat \<Rightarrow> verr" where
  "fSError msg st = VErr (Some st) (Some (Str msg)) None msg"

section \<open>Paths\<close>

text \<open>
  \<open>path.join\<close> and \<open>path.dirname\<close> of Node.js (POSIX flavour) and the \<open>sanitize-filename\<close>
  package are libraries the plugin calls. They are written out here as their published
  sources define them, on byte strings.
\<close>

fun split_path :: "string \<Rightarrow> string list" where
  "split_path [] = [[]]"
| "split_path (c # cs) =
     (if c = CHR ''/'' then [] # split_path cs
      else (case split_path cs of [] \<Rightarrow> [[c]] | s # ss \<Rightarrow> (c # s) # ss))"

text \<open>
  \<open>normalizeString\<close>: the accumulator holds the segments kept so far, last one first.
  Empty segments and \<open>.\<close> are dropped; \<open>..\<close> removes the previous segment, or is kept
  when the path is relative and nothing is left to remove.
\<close>

fun normalizeString :: "bool \<Rightarrow> string list \<Rightarrow> string list \<Rightarrow> string list" where
  "normalizeString allowAboveRoot acc [] = rev acc"
| "normalizeString allowAboveRoot acc (s # ss) =
     (if s = [] \<or> s = ''.'' then normalizeString allowAboveRoot acc ss
      else if s = ''..'' then
        (case acc of
           [] \<Rightarrow> normalizeString allowAboveRoot (if allowAboveRoot then [''..''] else []) ss
         | a # as \<Rightarrow>
             if a = ''..'' then
               normalizeString allowAboveRoot (if allowAboveRoot then ''..'' # acc else acc) ss
             else normalizeString allowAboveRoot as ss)
      else normalizeString allowAboveRoot (s # acc) ss)"

fun join_segments :: "string list \<Rightarrow> string" where
  "join_segments [] = []"
| "join_segments [s] = s"
| "join_segments (s # t # ss) = s @ ''/'' @ join_segments (t # ss)"

definition isAbsolute :: "string \<Rightarrow> bool" where
  "isAbsolute p \<longleftrightarrow> (case p of [] \<Rightarrow> False | c # _ \<Rightarrow> c = CHR ''/'')"

definition normalize :: "string \<Rightarrow> string" where
  "normalize p =
     (if p = [] then ''.''
      else let trailingSeparator = (last p = CHR ''/'');
               body = join_segments (normalizeString (\<not> isAbsolute p) [] (split_path p))
           in if body = [] then
                (if isAbsolute p then ''/'' else if trailingSeparator then ''./'' else ''.'')
              else (if isAbsolute p then ''/'' else []) @ body
                   @ (if trailingSeparator then ''/'' else []))"

definition path_join :: "string \<Rightarrow> string \<Rightarrow> string" where
  "path_join a b =
     (if a = [] \<and> b = [] then ''.''
      else if a = [] then normalize b
      else if b = [] then normalize a
      else normalize (a @ ''/'' @ b))"

definition dirname :: "string \<Rightarrow> string" where
  "dirname p =
     (let d = rev (dropWhile (\<lambda>c. c \<noteq> CHR ''/'') (rev p))
      in if d = [] then ''.'' else if d = ''/'' then ''/'' else butlast d)"

text \<open>
  The segments of a path below the root directory of the file system. A path is inside
  a directory when the directory's segments are a prefix of its own.
\<close>

definition segments :: "string \<Rightarrow> string list" where
  "segments p = normalizeString False [] (split_path p)"

definition inside :: "string \<Rightarrow> string \<Rightarrow> bool" where
  "inside dir p \<longleftrightarrow> prefix (segments dir) (segments p)"

subsection \<open>\<open>sanitize-filename\<close>\<close>

definition illegalRe :: "char \<Rightarrow> bool" where
  "illegalRe c \<longleftrightarrow>
     c \<in> {CHR ''/'', CHR ''?'', CHR ''<'', CHR ''>'', CHR 0x5C, CHR '':'', CHR ''*'', CHR ''|'', CHR 0x22}"

definition controlRe :: "char \<Rightarrow> bool" where
  "controlRe c \<longleftrightarrow> (of_char c :: nat) < 32 \<or> (128 \<le> (of_char c :: nat) \<and> (of_char c :: nat) \<le> 159)"

definition reservedRe :: "string \<Rightarrow> bool" where
  "reservedRe s \<longleftrightarrow> s \<noteq> [] \<and> (\<forall>c \<in> set s. c = CHR ''.'')"

definition toLower :: "char \<Rightarrow> char" where
  "toLower c = (if 65 \<le> (of_char c :: nat) \<and> (of_char c :: nat) \<le> 90
                then char_of (of_char c + 32 :: nat) else c)"

definition windowsReservedRe :: "string \<Rightarrow> bool" where
  "windowsReservedRe s \<longleftrightarrow>
     map toLower (takeWhile (\<lambda>c. c \<noteq> CHR ''.'') s)
       \<in> set ([''con'', ''prn'', ''aux'', ''nul'']
              @ map (\<lambda>d. ''com'' @ [d]) ''0123456789''
              @ map (\<lambda>d. ''lpt'' @ [d]) ''0123456789'')"

definition windowsTrailing :: "string \<Rightarrow> string" where
  "windowsTrailing s = rev (dropWhile (\<lambda>c. c = CHR ''.'' \<or> c = CHR '' '') (rev s))"

definition sanitzers :: "string \<Rightarrow> string" where
  "sanitzers input =
     (let s1 = filter (\<lambda>c. \<not> illegalRe c) input;
          s2 = filter (\<lambda>c. \<not> controlRe c) s1;
          s3 = (if reservedRe s2 then [] else s2);
          s4 = (if windowsReservedRe s3 then [] else s3);
          s5 = windowsTrailing s4
      in take 255 s5)"

section \<open>The file system seen by \<open>LocalFS\<close>\<close>

text \<open>
  The promisified primitives of \<open>./fs\<close> are parameters: each one maps the state of the
  file system to an errno code or to the new state (a failed primitive changes nothing).
  \<open>win32\<close> is \<open>process.platform === 'win32'\<close>, \<open>random k\<close> the digits produced by the
  \<open>k\<close>-th call of \<open>Math.random\<close>, \<open>path\<close> the directory of the package.
\<close>

record 'fs LocalFS =
  path :: string
  win32 :: bool
  random :: "nat \<Rightarrow> string"
  accessPromise :: "string \<Rightarrow> 'fs \<Rightarrow> bool"
  openPromise :: "string \<Rightarrow> string \<Rightarrow> 'fs \<Rightarrow> string + 'fs"
  writeFilePromise :: "string \<Rightarrow> string \<Rightarrow> 'fs \<Rightarrow> string + 'fs"
  appendPromise :: "string \<Rightarrow> string \<Rightarrow> 'fs \<Rightarrow> string + 'fs"
  renamePromise :: "string \<Rightarrow> string \<Rightarrow> 'fs \<Rightarrow> string + 'fs"
  unlinkPromise :: "string \<Rightarrow> 'fs \<Rightarrow> string + 'fs"
  mkdirPromise :: "string \<Rightarrow> 'fs \<Rightarrow> string + 'fs"

text \<open>\<open>getStorage\<close> is the method \<open>_getStorage\<close>.\<close>

text \<open>An awaited primitive: the rejection becomes a thrown Node.js error.\<close>

definition await :: "('fs \<Rightarrow> string + 'fs) \<Rightarrow> 'fs \<Rightarrow> (verr + unit) \<times> 'fs" where
  "await prim fs = (case prim fs of Inl c \<Rightarrow> (Inl (nodeError c), fs) | Inr fs' \<Rightarrow> (Inr (), fs'))"

definition tempFile :: "string \<Rightarrow> string \<Rightarrow> string" where
  "tempFile str rnd = str @ ''.tmp'' @ rnd"

definition getStorage :: "'fs LocalFS \<Rightarrow> string \<Rightarrow> string" where
  "getStorage self fileName = path_join (path self) (sanitzers fileName)"

text \<open>
  \<open>renameTmpNext\<close>. Elsewhere than on Windows a failed rename is answered by unlinking the
  source, and only a failure of that unlink is thrown. On Windows the target is first
  moved aside and removed; the source is renamed only when that fails.
\<close>

definition renameTmpNext :: "'fs LocalFS \<Rightarrow> nat \<Rightarrow> string \<Rightarrow> string \<Rightarrow> 'fs \<Rightarrow> (verr + unit) \<times> 'fs" where
  "renameTmpNext self k src dst fs =
     (if \<not> win32 self then
        (case renamePromise self src dst fs of
           Inr fs' \<Rightarrow> (Inr (), fs')
         | Inl _ \<Rightarrow> await (unlinkPromise self src) fs)
      else
        (let tmp = tempFile dst (random self k) in
         case renamePromise self dst tmp fs of
           Inl _ \<Rightarrow> await (renamePromise self src dst) fs
         | Inr fs1 \<Rightarrow>
             (case unlinkPromise self tmp fs1 of
                Inl _ \<Rightarrow> await (renamePromise self src dst) fs1
              | Inr fs2 \<Rightarrow> (Inr (), fs2))))"

definition writeTempFileAndRename ::
  "'fs LocalFS \<Rightarrow> nat \<Rightarrow> string \<Rightarrow> string \<Rightarrow> 'fs \<Rightarrow> (verr + unit) \<times> 'fs" where
  "writeTempFileAndRename self k dest fileContent fs =
     (let tempFilePath = tempFile dest (random self k) in
      case writeFilePromise self tempFilePath fileContent fs of
        Inl c \<Rightarrow> (Inl (nodeError c), fs)
      | Inr fs' \<Rightarrow> renameTmpNext self (Suc k) tempFilePath dest fs')"

definition writeFileNext ::
  "'fs LocalFS \<Rightarrow> nat \<Rightarrow> string \<Rightarrow> string \<Rightarrow> 'fs \<Rightarrow> (verr + unit) \<times> 'fs" where
  "writeFileNext self k destiny fileContent fs =
     (case writeTempFileAndRename self k destiny fileContent fs of
        (Inr u, fs') \<Rightarrow> (Inr u, fs')
      | (Inl err, fs') \<Rightarrow>
          if code err = Some (Str noSuchFile) then
            (case mkdirPromise self (dirname destiny) fs' of
               Inl c \<Rightarrow> (Inl (nodeError c), fs')
             | Inr fs'' \<Rightarrow> writeTempFileAndRename self (k + 2) destiny fileContent fs'')
          else (Inl err, fs'))"

text \<open>
  \<open>createPackageNext\<close>: the exclusive open, whose only failure that is acted upon is
  \<open>EEXIST\<close>, then the write of the manifest text (\<open>_convertToString(manifest)\<close>).
\<close>

definition createPackageNext ::
  "'fs LocalFS \<Rightarrow> nat \<Rightarrow> string \<Rightarrow> string \<Rightarrow> 'fs \<Rightarrow> (verr + unit) \<times> 'fs" where
  "createPackageNext self k name manifestText fs =
     (let pathPackage = getStorage self packageJSONFileName in
      case openPromise self pathPackage ''wx'' fs of
        Inl c \<Rightarrow>
          if c = ''EEXIST'' then (Inl (fSError fileExist 409), fs)
          else writeFileNext self k pathPackage manifestText fs
      | Inr fs' \<Rightarrow> writeFileNext self k pathPackage manifestText fs')"

subsection \<open>A concrete file system\<close>

text \<open>
  Regular files with their content, and the directories that exist. It serves to run
  the operations on concrete inputs.
\<close>

record disk =
  files :: "string \<rightharpoonup> string"
  dirs :: "string set"

definition disk_open :: "string \<Rightarrow> string \<Rightarrow> disk \<Rightarrow> string + disk" where
  "disk_open p flags d =
     (if flags = ''wx'' \<and> files d p \<noteq> None then Inl ''EEXIST''
      else if dirname p \<notin> dirs d then Inl ''ENOENT''
      else if flags = ''wx'' \<or> flags = ''w'' then Inr (d\<lparr>files := (files d)(p \<mapsto> [])\<rparr>)
      else Inr d)"

definition disk_writeFile :: "string \<Rightarrow> string \<Rightarrow> disk \<Rightarrow> string + disk" where
  "disk_writeFile p content d =
     (if dirname p \<notin> dirs d then Inl ''ENOENT''
      else Inr (d\<lparr>files := (files d)(p \<mapsto> content)\<rparr>))"

definition disk_append :: "string \<Rightarrow> string \<Rightarrow> disk \<Rightarrow> string + disk" where
  "disk_append p content d =
     (case files d p of
        None \<Rightarrow> Inl ''ENOENT''
      | Some old \<Rightarrow> Inr (d\<lparr>files := (files d)(p \<mapsto> old @ content)\<rparr>))"

definition disk_rename :: "string \<Rightarrow> string \<Rightarrow> disk \<Rightarrow> string + disk" where
  "disk_rename src dst d =
     (case files d src of
        None \<Rightarrow> Inl ''ENOENT''
      | Some content \<Rightarrow>
          if dirname dst \<notin> dirs d then Inl ''ENOENT''
          else Inr (d\<lparr>files := ((files d)(src := None))(dst \<mapsto> content)\<rparr>))"

definition disk_unlink :: "string \<Rightarrow> disk \<Rightarrow> string + disk" where
  "disk_unlink p d =
     (if files d p = None then Inl ''ENOENT''
      else Inr (d\<lparr>files := (files d)(p := None)\<rparr>))"

definition disk_mkdir :: "string \<Rightarrow> disk \<Rightarrow> string + disk" where
  "disk_mkdir p d = Inr (d\<lparr>dirs := insert p (dirs d)\<rparr>)"

definition posix :: "string \<Rightarrow> (nat \<Rightarrow> string) \<Rightarrow> disk LocalFS" where
  "posix root rnd =
     \<lparr>path = root, win32 = False, random = rnd,
      accessPromise = (\<lambda>p d. files d p \<noteq> None),
      openPromise = disk_open, writeFilePromise = disk_writeFile, appendPromise = disk_append,
      renamePromise = disk_rename, unlinkPromise = disk_unlink, mkdirPromise = disk_mkdir\<rparr>"

definition digits :: "nat \<Rightarrow> string" where
  "digits k = replicate (Suc k) (CHR ''7'')"

definition emptyDisk :: disk where
  "emptyDisk = \<lparr>files = Map.empty, dirs = {''/'', ''/storage''}\<rparr>"

section \<open>Thread-safe update of a manifest\<close>

text \<open>
  The file-locking library is a parameter: the awaited result of
  \<open>_lockAndReadJSONNext(package.json)\<close>, and the result of the \<open>k\<close>-th call of
  \<open>_unlockJSONNext\<close> (\<open>None\<close> when it resolves, the rejection otherwise). The calls made to
  the library are recorded, in order.
\<close>

record 'm locking =
  lockAndReadJSONNext :: "verr + 'm"
  unlockJSONNext :: "nat \<Rightarrow> verr option"

datatype lock_event = LockAndRead | Unlock

text \<open>
  The \<open>catch\<close> block of \<open>updatePackageNext\<close> when \<open>locked\<close> is true. The inner \<open>try\<close> awaits
  the unlock and then throws the caught error; both the rejection of the unlock and that
  \<open>throw\<close> are inside the \<open>try\<close>, so the inner \<open>catch\<close> receives either of them.
\<close>

definition catchLocked :: "'m locking \<Rightarrow> nat \<Rightarrow> verr \<Rightarrow> verr + 'm" where
  "catchLocked env k err =
     (let tried = (case unlockJSONNext env k of Some unlockErr \<Rightarrow> unlockErr | None \<Rightarrow> err)
      in (case tried of _ \<Rightarrow> Inl (getInternalError ''resource temporarily unavailable'')))"

definition catchUnlocked :: "verr \<Rightarrow> verr + 'm" where
  "catchUnlocked err =
     (if code err = Some (Str resourceNotAvailable) then
        Inl (getInternalError ''resource temporarily unavailable'')
      else if code err = Some (Str noSuchFile) then Inl (getNotFound API_ERROR_NO_PACKAGE)
      else Inl err)"

definition updatePackageNext ::
  "'m locking \<Rightarrow> ('m \<Rightarrow> verr + 'm) \<Rightarrow> (verr + 'm) \<times> lock_event list" where
  "updatePackageNext env handleUpdate =
     (case lockAndReadJSONNext env of
        Inl err \<Rightarrow> (catchUnlocked err, [LockAndRead])
      | Inr manifest \<Rightarrow>
          (case handleUpdate manifest of
             Inl err \<Rightarrow> (catchLocked env 0 err, [LockAndRead, Unlock])
           | Inr manifestUpdated \<Rightarrow>
               (case unlockJSONNext env 0 of
                  None \<Rightarrow> (Inr manifestUpdated, [LockAndRead, Unlock])
                | Some err \<Rightarrow> (catchLocked env 1 err, [LockAndRead, Unlock, Unlock]))))"

text \<open>
  The callback-based \<open>updatePackage\<close>. \<open>updateHandler\<close> edits the manifest in place and
  reports an error or not; \<open>onWrite\<close> reports an error or not. The result is the argument
  handed to \<open>onEnd\<close>. \<open>unLockCallback\<close> unlocks first when the lock is held, and ignores
  what the unlock reports.
\<close>

definition unLockCallback ::
  "'m locking \<Rightarrow> bool \<Rightarrow> verr option \<Rightarrow> lock_event list \<Rightarrow> verr option \<times> lock_event list" where
  "unLockCallback env locked lockError trace =
     (if locked then (case unlockJSONNext env 0 of _ \<Rightarrow> (lockError, trace @ [Unlock]))
      else (lockError, trace))"

definition updatePackage ::
  "'m locking \<Rightarrow> ('m \<Rightarrow> verr + 'm) \<Rightarrow> ('m \<Rightarrow> verr option) \<Rightarrow> ('m \<Rightarrow> 'm)
     \<Rightarrow> verr option \<times> lock_event list" where
  "updatePackage env updateHandler onWrite transformPackage =
     (case lockAndReadJSONNext env of
        Inl err \<Rightarrow>
          (if code err = Some (Str resourceNotAvailable) then
             unLockCallback env False
               (Some (getInternalError ''resource temporarily unavailable'')) [LockAndRead]
           else if code err = Some (Str noSuchFile) then
             unLockCallback env False (Some (getNotFound API_ERROR_NO_PACKAGE)) [LockAndRead]
           else unLockCallback env False (Some err) [LockAndRead])
      | Inr json \<Rightarrow>
          (case updateHandler json of
             Inl err \<Rightarrow> unLockCallback env True (Some err) [LockAndRead]
           | Inr json' \<Rightarrow>
               unLockCallback env True (onWrite (transformPackage json')) [LockAndRead]))"

section \<open>Manifests and uplinks\<close>

text \<open>
  The fields of a manifest that the storage reads or writes. \<open>dist_tags\<close>, \<open>distfiles\<close>,
  \<open>attachments\<close>, \<open>uplinks\<close> and \<open>rev\<close> are the JSON keys \<open>dist-tags\<close>, \<open>_distfiles\<close>,
  \<open>_attachments\<close>, \<open>_uplinks\<close> and \<open>_rev\<close>; \<open>hidden_uplink\<close> is the property stored under
  \<open>Symbol.for('__verdaccio_uplink')\<close>.
\<close>

record version =
  dist_tarball :: "string option"
  hidden_uplink :: "string option"

record distfile =
  url :: string
  sha :: string

record uplink_meta =
  etag :: "string option"
  fetched :: "int option"

record manifest =
  name :: string
  versions :: "string \<rightharpoonup> version"
  dist_tags :: "string \<rightharpoonup> string"
  time :: "string \<rightharpoonup> string"
  distfiles :: "string \<rightharpoonup> distfile"
  attachments :: "string \<rightharpoonup> string"
  uplinks :: "string \<rightharpoonup> uplink_meta"
  rev :: string

text \<open>
  Modelled from the spec: \<open>generatePackageTemplate\<close> of \<open>storage-utils\<close> is not part of the
  sources at hand; section 4.4 calls its result a freshly generated empty template.
\<close>

definition generatePackageTemplate :: "string \<Rightarrow> manifest" where
  "generatePackageTemplate pkgName =
     \<lparr>name = pkgName, versions = Map.empty, dist_tags = Map.empty, time = Map.empty,
      distfiles = Map.empty, attachments = Map.empty, uplinks = Map.empty, rev = []\<rparr>"


text \<open>\<open>updateVersionsHiddenUpLink\<close>: every version of the response is marked with the uplink.\<close>

definition updateVersionsHiddenUpLink :: "(string \<rightharpoonup> version) \<Rightarrow> string \<Rightarrow> (string \<rightharpoonup> version)" where
  "updateVersionsHiddenUpLink vs upLinkName =
     (\<lambda>i. map_option (\<lambda>v. v\<lparr>hidden_uplink := Some upLinkName\<rparr>) (vs i))"

record uplink =
  upname :: string
  maxage :: int

text \<open>
  What \<open>getRemoteMetadata\<close> hands to its callback (\<open>err\<close>, \<open>upLinkResponse\<close>, \<open>eTag\<close>), and the
  value of \<open>Date.now()\<close> when the callback runs.
\<close>

record response =
  r_err :: "verr option"
  r_body :: "manifest option"
  r_eTag :: "string option"
  r_at :: int

record sync_options =
  uplinksLook :: "bool option"
  o_etag :: "string option"

text \<open>
  The collaborators of the storage facade: the configured uplinks in the order of
  \<open>this.uplinks\<close>, the proxy rule \<open>hasProxyTo(name, uplink, config.packages)\<close>, the clock read
  by the freshness check, the uplink proxy, and the helpers of other packages
  (\<open>validateMetadata\<close>, \<open>mergeUplinkTimeIntoLocal\<close>, \<open>mergeVersions\<close>, the local storage's
  \<open>getPackageMetadata\<close> and \<open>updateVersions\<close>, the filters, \<open>cleanUpLinksRef\<close>).
\<close>

record storage =
  configuredUplinks :: "uplink list"
  hasProxyTo :: "string \<Rightarrow> string \<Rightarrow> bool"
  now :: int
  getRemoteMetadata :: "string \<Rightarrow> string \<Rightarrow> string option \<Rightarrow> response"
  validateMetadata :: "manifest \<Rightarrow> string \<Rightarrow> verr option"
  mergeUplinkTimeIntoLocal :: "manifest \<Rightarrow> manifest \<Rightarrow> (string \<rightharpoonup> string)"
  mergeVersions :: "manifest \<Rightarrow> manifest \<Rightarrow> verr + manifest"
  getPackageMetadata :: "string \<Rightarrow> verr + manifest"
  updateVersions :: "string \<Rightarrow> manifest \<Rightarrow> verr + manifest"
  filters :: "(manifest \<Rightarrow> verr + manifest) list"
  cleanUpLinksRef :: "manifest \<Rightarrow> bool option \<Rightarrow> manifest"

section \<open>\<open>_syncUplinksMetadata\<close>\<close>

text \<open>
  \<open>async.map\<close> runs the iteratee on every selected uplink at once. Its synchronous part
  decides, from the manifest as it is at the start, whether the uplink is skipped or
  asked; the callbacks of \<open>getRemoteMetadata\<close> run later, here in the order of the uplinks.
\<close>

text \<open>\<open>fetched && Date.now() - fetched < upLink.maxage\<close>, under \<open>isObject(upLinkMeta)\<close>.\<close>

definition isFresh :: "storage \<Rightarrow> uplink \<Rightarrow> uplink_meta option \<Rightarrow> bool" where
  "isFresh self upLink upLinkMeta =
     (case upLinkMeta of
        None \<Rightarrow> False
      | Some meta \<Rightarrow>
          (case fetched meta of
             None \<Rightarrow> False
           | Some f \<Rightarrow> f \<noteq> 0 \<and> now self - f < maxage upLink))"

text \<open>The etag of the request: that of the record when there is one, the caller's otherwise.\<close>

definition requestEtag :: "sync_options \<Rightarrow> uplink_meta option \<Rightarrow> string option" where
  "requestEtag options upLinkMeta =
     (case upLinkMeta of None \<Rightarrow> o_etag options | Some meta \<Rightarrow> etag meta)"

datatype request = Skip | Ask "string option"

definition iteratee :: "storage \<Rightarrow> sync_options \<Rightarrow> manifest \<Rightarrow> uplink \<Rightarrow> request" where
  "iteratee self options packageInfo upLink =
     (let upLinkMeta = uplinks packageInfo (upname upLink)
      in if isFresh self upLink upLinkMeta then Skip
         else Ask (requestEtag options upLinkMeta))"

record sync_state =
  packageInfo :: manifest
  found :: bool

text \<open>
  The callback of \<open>getRemoteMetadata\<close>. \<open>upLinkMeta\<close> is the record captured by the iteratee.
  The result is what is handed to \<open>cb\<close> (\<open>None\<close> for \<open>cb()\<close>), or the exception that leaves
  the callback.
\<close>

definition stampError :: verr where
  "stampError = TypeError ''Cannot set properties of undefined''"

definition stamp304 :: "string \<Rightarrow> uplink_meta option \<Rightarrow> int \<Rightarrow> manifest \<Rightarrow> verr + manifest" where
  "stamp304 upLinkName upLinkMeta t info =
     (case upLinkMeta of
        None \<Rightarrow> Inl stampError
      | Some _ \<Rightarrow>
          Inr (info\<lparr>uplinks := (\<lambda>k. if k = upLinkName
                                       then map_option (\<lambda>meta. meta\<lparr>fetched := Some t\<rparr>) (uplinks info k)
                                       else uplinks info k)\<rparr>))"

definition onResponse ::
  "storage \<Rightarrow> string \<Rightarrow> uplink \<Rightarrow> uplink_meta option \<Rightarrow> response \<Rightarrow> sync_state
     \<Rightarrow> (verr + verr list option) \<times> sync_state" where
  "onResponse self pkgName upLink upLinkMeta r st =
     (case (if (case r_err r of None \<Rightarrow> False | Some err \<Rightarrow> remoteStatus err = Some 304)
            then stamp304 (upname upLink) upLinkMeta (r_at r) (packageInfo st)
            else Inr (packageInfo st)) of
        Inl thrown \<Rightarrow> (Inl thrown, st)
      | Inr info0 \<Rightarrow>
          (case r_err r of
             Some err \<Rightarrow> (Inr (Some [err]), st\<lparr>packageInfo := info0\<rparr>)
           | None \<Rightarrow>
               (case r_body r of
                  None \<Rightarrow> (Inr (Some [getInternalError ''no data'']), st\<lparr>packageInfo := info0\<rparr>)
                | Some upLinkResponse \<Rightarrow>
                    (case validateMetadata self upLinkResponse pkgName of
                       Some err \<Rightarrow> (Inr (Some [err]), st\<lparr>packageInfo := info0\<rparr>)
                     | None \<Rightarrow>
                         (let info1 = info0\<lparr>uplinks := (uplinks info0)(upname upLink \<mapsto>
                                          \<lparr>etag = r_eTag r, fetched = Some (r_at r)\<rparr>)\<rparr>;
                              info2 = info1\<lparr>time := mergeUplinkTimeIntoLocal self info1 upLinkResponse\<rparr>;
                              marked = upLinkResponse\<lparr>versions :=
                                          updateVersionsHiddenUpLink (versions upLinkResponse) (upname upLink)\<rparr>
                          in case mergeVersions self info2 marked of
                               Inl err \<Rightarrow> (Inr (Some [err]), st\<lparr>packageInfo := info2\<rparr>)
                             | Inr info3 \<Rightarrow> (Inr None, \<lparr>packageInfo = info3, found = True\<rparr>))))))"

fun mapResponses ::
  "storage \<Rightarrow> string \<Rightarrow> manifest \<Rightarrow> (uplink \<times> request) list \<Rightarrow> sync_state
     \<Rightarrow> (verr + verr list option list) \<times> sync_state" where
  "mapResponses self pkgName start [] st = (Inr [], st)"
| "mapResponses self pkgName start ((upLink, Skip) # rest) st =
     (case mapResponses self pkgName start rest st of
        (Inl thrown, st') \<Rightarrow> (Inl thrown, st')
      | (Inr results, st') \<Rightarrow> (Inr (None # results), st'))"
| "mapResponses self pkgName start ((upLink, Ask tag) # rest) st =
     (case onResponse self pkgName upLink (uplinks start (upname upLink))
             (getRemoteMetadata self (upname upLink) pkgName tag) st of
        (Inl thrown, st') \<Rightarrow> (Inl thrown, st')
      | (Inr result, st') \<Rightarrow>
          (case mapResponses self pkgName start rest st' of
             (Inl thrown, st'') \<Rightarrow> (Inl thrown, st'')
           | (Inr results, st'') \<Rightarrow> (Inr (result # results), st'')))"

text \<open>The scan for a timeout or reset among the errors of the uplinks.\<close>

definition isTimeoutCode :: "jsval option \<Rightarrow> bool" where
  "isTimeoutCode c \<longleftrightarrow>
     c = Some (Str ''ETIMEDOUT'') \<or> c = Some (Str ''ESOCKETTIMEDOUT'') \<or> c = Some (Str ''ECONNRESET'')"

fun innerLoop :: "verr list \<Rightarrow> bool \<Rightarrow> bool" where
  "innerLoop [] uplinkTimeoutError = uplinkTimeoutError"
| "innerLoop (e # es) uplinkTimeoutError =
     (if isTimeoutCode (code e) then True else innerLoop es uplinkTimeoutError)"

fun outerLoop :: "verr list option list \<Rightarrow> bool \<Rightarrow> bool" where
  "outerLoop [] uplinkTimeoutError = uplinkTimeoutError"
| "outerLoop (None # rest) uplinkTimeoutError = outerLoop rest uplinkTimeoutError"
| "outerLoop (Some es # rest) uplinkTimeoutError = outerLoop rest (innerLoop es uplinkTimeoutError)"

text \<open>The filters run one after the other; one that throws leaves the manifest as it was.\<close>

fun runFilters :: "(manifest \<Rightarrow> verr + manifest) list \<Rightarrow> manifest \<Rightarrow> verr list \<Rightarrow> manifest \<times> verr list" where
  "runFilters [] packageJsonLocal filterErrors = (packageJsonLocal, filterErrors)"
| "runFilters (f # fs) packageJsonLocal filterErrors =
     (case f packageJsonLocal of
        Inl err \<Rightarrow> runFilters fs packageJsonLocal (filterErrors @ [err])
      | Inr m \<Rightarrow> runFilters fs m filterErrors)"

text \<open>
  An element of the error list handed to the caller: the result of one uplink, or (after
  \<open>_.concat\<close>) the error of one filter.
\<close>

datatype sync_error = OfUplink "verr list option" | OfFilter verr

text \<open>
  The outcome: the arguments of \<open>callback\<close>, or the exception that left a callback of
  \<open>getRemoteMetadata\<close> (then \<open>callback\<close> is never called).
\<close>

datatype sync_result =
    Callback "verr option" "manifest option" "sync_error list option"
  | Uncaught verr

definition selectedUplinks :: "storage \<Rightarrow> string \<Rightarrow> sync_options \<Rightarrow> uplink list" where
  "selectedUplinks self pkgName options =
     (let hasToLookIntoUplinks = (case uplinksLook options of None \<Rightarrow> True | Some b \<Rightarrow> b)
      in filter (\<lambda>u. hasProxyTo self pkgName (upname u) \<and> hasToLookIntoUplinks)
           (configuredUplinks self))"

text \<open>The requests sent over the network, in the order in which they are issued.\<close>

definition networkCalls :: "(uplink \<times> request) list \<Rightarrow> (uplink \<times> string option) list" where
  "networkCalls rs = concat (map (\<lambda>(u, q). case q of Skip \<Rightarrow> [] | Ask tag \<Rightarrow> [(u, tag)]) rs)"

definition syncUplinksMetadata ::
  "storage \<Rightarrow> string \<Rightarrow> manifest option \<Rightarrow> sync_options
     \<Rightarrow> sync_result \<times> (uplink \<times> string option) list" where
  "syncUplinksMetadata self pkgName pkgInfo options =
     (let start = (case pkgInfo of None \<Rightarrow> generatePackageTemplate pkgName | Some m \<Rightarrow> m);
          upLinks = selectedUplinks self pkgName options;
          requests = map (\<lambda>u. (u, iteratee self options start u)) upLinks
      in case mapResponses self pkgName start requests
                \<lparr>packageInfo = start, found = (pkgInfo \<noteq> None)\<rparr> of
           (Inl thrown, _) \<Rightarrow> (Uncaught thrown, networkCalls requests)
         | (Inr upLinksErrors, st) \<Rightarrow>
             (if \<not> found st then
                (if outerLoop upLinksErrors False then
                   Callback (Some getServiceUnavailable) None (Some (map OfUplink upLinksErrors))
                 else
                   Callback (Some (getNotFound API_ERROR_NO_PACKAGE)) None
                     (Some (map OfUplink upLinksErrors)))
              else if upLinks = [] then Callback None (Some (packageInfo st)) None
              else
                (case updateVersions self pkgName (packageInfo st) of
                   Inl err \<Rightarrow> Callback (Some err) None None
                 | Inr packageJsonLocal \<Rightarrow>
                     (case runFilters (filters self) packageJsonLocal [] of
                        (filtered, filterErrors) \<Rightarrow>
                          Callback None (Some filtered)
                            (Some (map OfUplink upLinksErrors @ map OfFilter filterErrors)))),
              networkCalls requests))"

section \<open>The facade: reading a package\<close>





text \<open>
  The methods of \<open>AbstractStorage\<close> that \<open>getPackageNext\<close> and \<open>getTarballNext\<close> call are
  parameters. A tarball stream is identified with the bytes it delivers.
\<close>

record abstract_storage =
  getPackageLocalMetadata :: "string \<Rightarrow> verr + manifest"
  syncUplinksMetadataNext ::
    "string \<Rightarrow> manifest option \<Rightarrow> sync_options \<Rightarrow> verr + (manifest option \<times> verr list)"
  fetchTarllballFromUpstream :: "string \<Rightarrow> distfile option \<Rightarrow> verr + string"



section \<open>The facade: reading a tarball\<close>

text \<open>
  \<open>getTarballNext\<close>. \<open>piped\<close> is the outcome of piping the local read stream. The result is
  the returned stream (\<open>None\<close> when the function returns nothing) or the thrown error,
  together with the calls made to \<open>fetchTarllballFromUpstream\<close>. The first test of the
  inner \<open>if\<close> is \<open>_.isNil(err)\<close> on the error that was just caught.
\<close>

definition STORAGE_NO_SUCH_FILE_ERROR :: string where
  "STORAGE_NO_SUCH_FILE_ERROR = ''ENOENT''"

definition getTarballNext ::
  "abstract_storage \<Rightarrow> string \<Rightarrow> string \<Rightarrow> verr + string
     \<Rightarrow> (verr + string option) \<times> (string \<times> distfile option) list" where
  "getTarballNext base pkgName filename piped =
     (case piped of
        Inr localTarballStream \<Rightarrow> (Inr (Some localTarballStream), [])
      | Inl err \<Rightarrow>
          if code err = Some (Str STORAGE_NO_SUCH_FILE_ERROR) \<or> code err = Some (Num 404) then
            (case getPackageLocalMetadata base pkgName of
               Inl thrown \<Rightarrow> (Inl thrown, [])
             | Inr m \<Rightarrow>
                 (let errIsNil = False in
                  if errIsNil \<and> distfiles m filename \<noteq> None then (Inr None, [])
                  else
                    (let tarballUrl = distfiles m filename in
                     case fetchTarllballFromUpstream base pkgName tarballUrl of
                       Inl thrown \<Rightarrow> (Inl thrown, [(pkgName, tarballUrl)])
                     | Inr remoteStream \<Rightarrow> (Inr (Some remoteStream), [(pkgName, tarballUrl)]))))
          else (Inl err, []))"

text \<open>
  The callback-based \<open>getTarball\<close>, up to the point where it serves the file from an
  uplink (\<open>serveFile\<close>), pipes the local file, or emits an error on the returned stream.
  The local stream either opens or fails; \<open>isOpen\<close> tells whether it had opened.
\<close>

datatype local_stream = LocalOpen string | LocalError bool verr

datatype tarball_result = Piped string | EmitError verr | ServeFile distfile | Thrown verr

definition afterSync :: "sync_result \<Rightarrow> string \<Rightarrow> verr \<Rightarrow> tarball_result" where
  "afterSync r filename err404 =
     (case r of
        Uncaught thrown \<Rightarrow> Thrown thrown
      | Callback (Some err) _ _ \<Rightarrow> EmitError err
      | Callback None None _ \<Rightarrow> Thrown (TypeError ''Cannot read properties of undefined'')
      | Callback None (Some info) _ \<Rightarrow>
          (case distfiles info filename of
             None \<Rightarrow> EmitError err404
           | Some file \<Rightarrow> ServeFile file))"

definition getTarball :: "storage \<Rightarrow> string \<Rightarrow> string \<Rightarrow> local_stream \<Rightarrow> tarball_result" where
  "getTarball self pkgName filename localStream =
     (case localStream of
        LocalOpen bytes \<Rightarrow> Piped bytes
      | LocalError isOpen err \<Rightarrow>
          if isOpen \<or> status err \<noteq> Some 404 then EmitError err
          else
            (case getPackageMetadata self pkgName of
               Inl _ \<Rightarrow>
                 afterSync (fst (syncUplinksMetadata self pkgName None
                                   \<lparr>uplinksLook = None, o_etag = None\<rparr>)) filename err
             | Inr info \<Rightarrow>
                 (case distfiles info filename of
                    Some file \<Rightarrow> ServeFile file
                  | None \<Rightarrow>
                      afterSync (fst (syncUplinksMetadata self pkgName (Some info)
                                        \<lparr>uplinksLook = None, o_etag = None\<rparr>)) filename err)))"

section \<open>Writing a tarball\<close>

text \<open>
  A write stream is followed through the events Node.js delivers to it. The listeners a
  function registers on \<open>close\<close> are kept in the order of their registration, and the
  file operations they start take effect in that order.
\<close>

datatype close_listener = RenameTmp | RemoveTempFile

subsection \<open>\<open>writeTarballNext\<close>\<close>

text \<open>
  \<open>w_opened\<close> is the variable \<open>opened\<close>, \<open>w_fd\<close> tells whether the descriptor of the staging
  file is open, \<open>w_unhandled\<close> collects the rejections nobody awaits.
\<close>

record wstream =
  w_pathName :: string
  w_temporalName :: string
  w_opened :: bool
  w_fd :: bool
  w_onClose :: "close_listener list"
  w_closed :: bool
  w_unhandled :: "verr list"

definition writeTarballNext :: "'fs LocalFS \<Rightarrow> nat \<Rightarrow> string \<Rightarrow> wstream" where
  "writeTarballNext self k pkgName =
     \<lparr>w_pathName = getStorage self pkgName,
      w_temporalName = path_join (path self) (pkgName @ ''.tmp-'' @ random self k),
      w_opened = False, w_fd = False, w_onClose = [RenameTmp], w_closed = False,
      w_unhandled = []\<rparr>"

definition removeTempFileNext :: "'fs LocalFS \<Rightarrow> wstream \<times> 'fs \<Rightarrow> wstream \<times> 'fs" where
  "removeTempFileNext self = (\<lambda>(w, fs).
     case unlinkPromise self (w_temporalName w) fs of
       Inl c \<Rightarrow> (w\<lparr>w_unhandled := w_unhandled w @ [nodeError c]\<rparr>, fs)
     | Inr fs' \<Rightarrow> (w, fs'))"

fun closeListenersNext :: "'fs LocalFS \<Rightarrow> nat \<Rightarrow> close_listener list \<Rightarrow> wstream \<times> 'fs \<Rightarrow> wstream \<times> 'fs" where
  "closeListenersNext self k [] s = s"
| "closeListenersNext self k (RenameTmp # ls) (w, fs) =
     closeListenersNext self k ls
       (w, snd (renameTmpNext self k (w_temporalName w) (w_pathName w) fs))"
| "closeListenersNext self k (RemoveTempFile # ls) (w, fs) =
     closeListenersNext self k ls (removeTempFileNext self (w, fs))"

definition emitClose :: "'fs LocalFS \<Rightarrow> nat \<Rightarrow> wstream \<times> 'fs \<Rightarrow> wstream \<times> 'fs" where
  "emitClose self k = (\<lambda>(w, fs).
     if w_closed w then (w, fs)
     else closeListenersNext self k (w_onClose w) (w\<lparr>w_closed := True, w_fd := False\<rparr>, fs))"

text \<open>The listener of \<open>error\<close>, and the listener of the signal's \<open>abort\<close>: the same body.\<close>

definition onErrorOrAbort :: "'fs LocalFS \<Rightarrow> wstream \<times> 'fs \<Rightarrow> wstream \<times> 'fs" where
  "onErrorOrAbort self = (\<lambda>(w, fs).
     if w_opened w then (w\<lparr>w_onClose := w_onClose w @ [RemoveTempFile]\<rparr>, fs)
     else removeTempFileNext self (w, fs))"

datatype stream_event = Open | Write string | End | AbortSignal | IOError

text \<open>
  \<open>Open\<close>: the staging file is created. \<open>End\<close>: the writer ends the stream, which then
  closes. \<open>AbortSignal\<close>: \<open>addAbortSignal\<close> destroys the stream, then the listener of
  \<open>writeTarballNext\<close> runs; the destroyed stream emits \<open>error\<close> and then \<open>close\<close>.
  \<open>IOError\<close>: a failed write destroys the stream, which emits \<open>error\<close> and \<open>close\<close>.
\<close>

fun streamEvent :: "'fs LocalFS \<Rightarrow> nat \<Rightarrow> stream_event \<Rightarrow> wstream \<times> 'fs \<Rightarrow> wstream \<times> 'fs" where
  "streamEvent self k Open (w, fs) =
     (if w_closed w \<or> w_fd w then (w, fs)
      else (case openPromise self (w_temporalName w) ''w'' fs of
              Inl c \<Rightarrow> emitClose self k (onErrorOrAbort self (w, fs))
            | Inr fs' \<Rightarrow> (w\<lparr>w_opened := True, w_fd := True\<rparr>, fs')))"
| "streamEvent self k (Write bytes) (w, fs) =
     (if w_closed w \<or> \<not> w_fd w then (w, fs)
      else (case appendPromise self (w_temporalName w) bytes fs of
              Inl c \<Rightarrow> emitClose self k (onErrorOrAbort self (w, fs))
            | Inr fs' \<Rightarrow> (w, fs')))"
| "streamEvent self k End (w, fs) = emitClose self k (w, fs)"
| "streamEvent self k AbortSignal (w, fs) =
     (if w_closed w then (w, fs)
      else emitClose self k (onErrorOrAbort self (onErrorOrAbort self (w, fs))))"
| "streamEvent self k IOError (w, fs) =
     (if w_closed w then (w, fs) else emitClose self k (onErrorOrAbort self (w, fs)))"

definition streamEvents ::
  "'fs LocalFS \<Rightarrow> nat \<Rightarrow> stream_event list \<Rightarrow> wstream \<times> 'fs \<Rightarrow> wstream \<times> 'fs" where
  "streamEvents self k evs s = fold (streamEvent self k) evs s"

subsection \<open>\<open>writeTarball\<close>\<close>

text \<open>
  The callback-based \<open>renameTmp\<close>: the error handed to the callback and the file system
  after it. A failed rename unlinks the source, whatever that unlink reports.
\<close>

definition renameAndCleanup :: "'fs LocalFS \<Rightarrow> string \<Rightarrow> string \<Rightarrow> 'fs \<Rightarrow> verr option \<times> 'fs" where
  "renameAndCleanup self src dst fs =
     (case renamePromise self src dst fs of
        Inr fs' \<Rightarrow> (None, fs')
      | Inl c \<Rightarrow>
          (Some (nodeError c),
           (case unlinkPromise self src fs of Inl _ \<Rightarrow> fs | Inr fs' \<Rightarrow> fs')))"

definition renameTmp :: "'fs LocalFS \<Rightarrow> nat \<Rightarrow> string \<Rightarrow> string \<Rightarrow> 'fs \<Rightarrow> verr option \<times> 'fs" where
  "renameTmp self k src dst fs =
     (if \<not> win32 self then renameAndCleanup self src dst fs
      else
        (let tmp = tempFile dst (random self k) in
         case renamePromise self dst tmp fs of
           Inl _ \<Rightarrow> renameAndCleanup self src dst fs
         | Inr fs1 \<Rightarrow>
             (case renamePromise self src dst fs1 of
                Inr fs2 \<Rightarrow>
                  (None, (case unlinkPromise self tmp fs2 of Inl _ \<Rightarrow> fs2 | Inr fs3 \<Rightarrow> fs3))
              | Inl c \<Rightarrow>
                  (let fs2 = (case unlinkPromise self tmp fs1 of Inl _ \<Rightarrow> fs1 | Inr fs3 \<Rightarrow> fs3)
                   in (Some (nodeError c),
                       (case unlinkPromise self src fs2 of Inl _ \<Rightarrow> fs2 | Inr fs3 \<Rightarrow> fs3))))))"

datatype upload_event = EError verr | ESuccess | EOpen

text \<open>
  The state of one call of \<open>writeTarball\<close>: \<open>u_checked\<close> tells whether the callback of
  \<open>fs.access\<close> has run, \<open>u_temporalName\<close> is set once the staging stream \<open>file\<close> exists,
  \<open>u_opened\<close> is the variable \<open>opened\<close>, \<open>u_fd\<close> tells whether the descriptor is open,
  \<open>u_ending\<close> whether \<open>file.end()\<close> was called, \<open>u_emitted\<close> lists the events emitted on
  the upload stream.
\<close>

record upload =
  u_pathName :: string
  u_checked :: bool
  u_temporalName :: "string option"
  u_opened :: bool
  u_fd :: bool
  u_onClose :: "close_listener list"
  u_ending :: bool
  u_closed :: bool
  u_emitted :: "upload_event list"

definition writeTarball :: "'fs LocalFS \<Rightarrow> string \<Rightarrow> upload" where
  "writeTarball self pkgName =
     \<lparr>u_pathName = getStorage self pkgName, u_checked = False, u_temporalName = None,
      u_opened = False, u_fd = False, u_onClose = [], u_ending = False, u_closed = False,
      u_emitted = []\<rparr>"

definition emit :: "upload_event \<Rightarrow> upload \<Rightarrow> upload" where
  "emit e u = u\<lparr>u_emitted := u_emitted u @ [e]\<rparr>"

definition removeTempFile :: "'fs LocalFS \<Rightarrow> string \<Rightarrow> 'fs \<Rightarrow> 'fs" where
  "removeTempFile self temporalName fs =
     (case unlinkPromise self temporalName fs of Inl _ \<Rightarrow> fs | Inr fs' \<Rightarrow> fs')"

fun closeListeners ::
  "'fs LocalFS \<Rightarrow> nat \<Rightarrow> string \<Rightarrow> close_listener list \<Rightarrow> upload \<times> 'fs \<Rightarrow> upload \<times> 'fs" where
  "closeListeners self k temporalName [] s = s"
| "closeListeners self k temporalName (RenameTmp # ls) (u, fs) =
     (case renameTmp self k temporalName (u_pathName u) fs of
        (Some err, fs') \<Rightarrow> closeListeners self k temporalName ls (emit (EError err) u, fs')
      | (None, fs') \<Rightarrow> closeListeners self k temporalName ls (emit ESuccess u, fs'))"
| "closeListeners self k temporalName (RemoveTempFile # ls) (u, fs) =
     closeListeners self k temporalName ls (u, removeTempFile self temporalName fs)"

datatype upload_step = AccessDone | FileOpen | FileWrite string | Done | Abort | FileClose

text \<open>
  One step of a call of \<open>writeTarball\<close> for \<open>pkgName\<close>, whose random numbers start at \<open>k\<close>.
  \<open>AccessDone\<close> is the callback of \<open>fs.access\<close>; \<open>Done\<close> and \<open>Abort\<close> are the methods \<open>done\<close>
  (once the upload has ended) and \<open>abort\<close>; the other steps are events of the staging
  stream. When the callback of \<open>fs.access\<close> found the file, there is no staging stream
  and the later steps have nothing to act on.
\<close>

fun uploadStep ::
  "'fs LocalFS \<Rightarrow> nat \<Rightarrow> string \<Rightarrow> upload_step \<Rightarrow> upload \<times> 'fs \<Rightarrow> upload \<times> 'fs" where
  "uploadStep self k pkgName AccessDone (u, fs) =
     (if u_checked u then (u, fs)
      else if accessPromise self (u_pathName u) fs then
        (emit (EError (fSError fileExist 409)) (u\<lparr>u_checked := True\<rparr>), fs)
      else
        (u\<lparr>u_checked := True,
           u_temporalName := Some (path_join (path self) (pkgName @ ''.tmp-'' @ random self k))\<rparr>,
         fs))"
| "uploadStep self k pkgName FileOpen (u, fs) =
     (case u_temporalName u of
        None \<Rightarrow> (u, fs)
      | Some temporalName \<Rightarrow>
          if u_closed u \<or> u_fd u then (u, fs)
          else (case openPromise self temporalName ''w'' fs of
                  Inl c \<Rightarrow> (emit (EError (nodeError c)) (u\<lparr>u_closed := True\<rparr>), fs)
                | Inr fs' \<Rightarrow> (emit EOpen (u\<lparr>u_opened := True, u_fd := True\<rparr>), fs')))"
| "uploadStep self k pkgName (FileWrite bytes) (u, fs) =
     (case u_temporalName u of
        None \<Rightarrow> (u, fs)
      | Some temporalName \<Rightarrow>
          if u_closed u \<or> u_ending u \<or> \<not> u_fd u then (u, fs)
          else (case appendPromise self temporalName bytes fs of
                  Inl c \<Rightarrow> (emit (EError (nodeError c)) u, fs)
                | Inr fs' \<Rightarrow> (u, fs')))"
| "uploadStep self k pkgName Done (u, fs) =
     (case u_temporalName u of
        None \<Rightarrow> (u, fs)
      | Some temporalName \<Rightarrow> (u\<lparr>u_onClose := u_onClose u @ [RenameTmp], u_ending := True\<rparr>, fs))"
| "uploadStep self k pkgName Abort (u, fs) =
     (case u_temporalName u of
        None \<Rightarrow> (u, fs)
      | Some temporalName \<Rightarrow>
          if u_opened u then
            (u\<lparr>u_opened := False, u_onClose := u_onClose u @ [RemoveTempFile], u_ending := True\<rparr>, fs)
          else (u\<lparr>u_ending := True\<rparr>, removeTempFile self temporalName fs))"
| "uploadStep self k pkgName FileClose (u, fs) =
     (case u_temporalName u of
        None \<Rightarrow> (u, fs)
      | Some temporalName \<Rightarrow>
          if u_closed u \<or> \<not> u_ending u \<or> \<not> u_fd u then (u, fs)
          else closeListeners self (Suc k) temporalName (u_onClose u)
                 (u\<lparr>u_closed := True, u_fd := False\<rparr>, fs))"



section \<open>Concrete inputs\<close>

text \<open>A package directory without files, and one that holds a manifest.\<close>

definition tarDisk :: disk where
  "tarDisk = \<lparr>files = Map.empty, dirs = {''/'', ''/storage'', ''/storage/pkg''}\<rparr>"

definition pkgDisk :: disk where
  "pkgDisk = \<lparr>files = [''/storage/pkg/package.json'' \<mapsto> ''{old}''],
               dirs = {''/'', ''/storage'', ''/storage/pkg''}\<rparr>"

text \<open>
  A storage whose uplinks all have proxy access, whose helpers accept every manifest, and
  whose merge keeps the local version where both sides have one.
\<close>

definition exampleStorage ::
  "uplink list \<Rightarrow> int \<Rightarrow> (string \<Rightarrow> response) \<Rightarrow> (verr + manifest) \<Rightarrow> storage" where
  "exampleStorage ups t respond localRead =
     \<lparr>configuredUplinks = ups, hasProxyTo = (\<lambda>_ _. True), now = t,
      getRemoteMetadata = (\<lambda>up _ _. respond up),
      validateMetadata = (\<lambda>_ _. None),
      mergeUplinkTimeIntoLocal = (\<lambda>local remote. time local),
      mergeVersions = (\<lambda>local remote. Inr (local\<lparr>versions := versions remote ++ versions local\<rparr>)),
      getPackageMetadata = (\<lambda>_. localRead),
      updateVersions = (\<lambda>_ m. Inr m),
      filters = [],
      cleanUpLinksRef = (\<lambda>m _. m)\<rparr>"

definition failure :: "verr \<Rightarrow> response" where
  "failure err = \<lparr>r_err = Some err, r_body = None, r_eTag = None, r_at = 1500\<rparr>"


definition npmjs :: uplink where
  "npmjs = \<lparr>upname = ''npmjs'', maxage = 120000\<rparr>"

definition mirror :: uplink where
  "mirror = \<lparr>upname = ''mirror'', maxage = 120000\<rparr>"

definition noOptions :: sync_options where
  "noOptions = \<lparr>uplinksLook = None, o_etag = None\<rparr>"




text \<open>One uplink times out, the other answers that it does not have the package.\<close>

definition timeoutAndMiss :: "string \<Rightarrow> response" where
  "timeoutAndMiss up =
     (if up = ''npmjs'' then failure (nodeError ''ETIMEDOUT'')
      else failure (getNotFound API_ERROR_NO_PACKAGE))"





text \<open>
  A storage without local data and with two uplinks, the first of which times out while
  the second answers that it does not have the package; and the error of each.
\<close>

definition twoUplinks :: storage where
  "twoUplinks = exampleStorage [npmjs, mirror] 1000 timeoutAndMiss (Inl (getNotFound API_ERROR_NO_PACKAGE))"

definition timeoutAndMissError :: "uplink \<Rightarrow> verr" where
  "timeoutAndMissError u =
     (if upname u = ''npmjs'' then nodeError ''ETIMEDOUT'' else getNotFound API_ERROR_NO_PACKAGE)"




section \<open>Properties\<close>

subsection \<open>Creating a package\<close>

lemma await_error_status: "await prim fs = (Inl e, fs') \<Longrightarrow> status e = None"
  by (auto simp: await_def nodeError_def split: sum.splits)

lemma renameTmpNext_error_status:
  "renameTmpNext self k src dst fs = (Inl e, fs') \<Longrightarrow> status e = None"
  by (auto simp: renameTmpNext_def Let_def split: if_splits sum.splits dest: await_error_status)

lemma writeTempFileAndRename_error_status:
  "writeTempFileAndRename self k dest txt fs = (Inl e, fs') \<Longrightarrow> status e = None"
  by (auto simp: writeTempFileAndRename_def Let_def nodeError_def
      split: sum.splits dest: renameTmpNext_error_status)

lemma writeFileNext_error_status:
  "writeFileNext self k dest txt fs = (Inl e, fs') \<Longrightarrow> status e = None"
  by (auto simp: writeFileNext_def nodeError_def
      split: sum.splits prod.splits if_splits dest: writeTempFileAndRename_error_status)

text \<open>
  Claim C10. \<open>createPackageNext\<close> throws the conflict error when the exclusive open of
  \<open>package.json\<close> fails with \<open>EEXIST\<close>, and only then: an error with status 409 comes from
  nowhere else. Any other failure of the exclusive open is dropped, and the result is
  that of writing the manifest through a temporary file on the file system as it was.
\<close>

theorem createPackageNext_conflict_only_on_EEXIST:
  "(openPromise self (getStorage self packageJSONFileName) ''wx'' fs = Inl ''EEXIST'' \<longrightarrow>
      createPackageNext self k pkgName txt fs = (Inl (fSError fileExist 409), fs))
   \<and> (\<forall>c. openPromise self (getStorage self packageJSONFileName) ''wx'' fs = Inl c \<and> c \<noteq> ''EEXIST'' \<longrightarrow>
      createPackageNext self k pkgName txt fs
        = writeFileNext self k (getStorage self packageJSONFileName) txt fs)
   \<and> (\<forall>e. fst (createPackageNext self k pkgName txt fs) = Inl e \<and> status e = Some 409 \<longrightarrow>
      openPromise self (getStorage self packageJSONFileName) ''wx'' fs = Inl ''EEXIST'')"
proof (intro conjI allI impI)
  assume "openPromise self (getStorage self packageJSONFileName) ''wx'' fs = Inl ''EEXIST''"
  then show "createPackageNext self k pkgName txt fs = (Inl (fSError fileExist 409), fs)"
    by (simp add: createPackageNext_def)
next
  fix c
  assume "openPromise self (getStorage self packageJSONFileName) ''wx'' fs = Inl c \<and> c \<noteq> ''EEXIST''"
  then show "createPackageNext self k pkgName txt fs
        = writeFileNext self k (getStorage self packageJSONFileName) txt fs"
    by (simp add: createPackageNext_def)
next
  fix e
  assume a: "fst (createPackageNext self k pkgName txt fs) = Inl e \<and> status e = Some 409"
  show "openPromise self (getStorage self packageJSONFileName) ''wx'' fs = Inl ''EEXIST''"
  proof (rule ccontr)
    assume "openPromise self (getStorage self packageJSONFileName) ''wx'' fs \<noteq> Inl ''EEXIST''"
    then obtain fs0 where
      "createPackageNext self k pkgName txt fs
         = writeFileNext self k (getStorage self packageJSONFileName) txt fs0"
      by (cases "openPromise self (getStorage self packageJSONFileName) ''wx'' fs")
        (auto simp: createPackageNext_def)
    with a obtain fs1 where
      "writeFileNext self k (getStorage self packageJSONFileName) txt fs0 = (Inl e, fs1)"
      by (metis prod.collapse)
    then have "status e = None" by (rule writeFileNext_error_status)
    with a show False by simp
  qed
qed

lemma storage_of_package_json:
  "getStorage (posix ''/storage/pkg'' digits) packageJSONFileName = ''/storage/pkg/package.json''"
  by code_simp

lemma dirname_of_package_json: "dirname ''/storage/pkg/package.json'' = ''/storage/pkg''"
  by code_simp

lemma open_without_directory:
  "openPromise (posix ''/storage/pkg'' digits) ''/storage/pkg/package.json'' ''wx'' emptyDisk
     = Inl ''ENOENT''"
  by (simp add: posix_def disk_open_def emptyDisk_def dirname_of_package_json)

lemma open_existing_manifest:
  "openPromise (posix ''/storage/pkg'' digits) ''/storage/pkg/package.json'' ''wx'' pkgDisk
     = Inl ''EEXIST''"
  by (simp add: posix_def disk_open_def pkgDisk_def)

lemma write_creates_directory:
  "fst (writeFileNext (posix ''/storage/pkg'' digits) 0 ''/storage/pkg/package.json'' ''{}'' emptyDisk)
     = Inr ()
   \<and> files (snd (writeFileNext (posix ''/storage/pkg'' digits) 0 ''/storage/pkg/package.json'' ''{}''
                   emptyDisk)) ''/storage/pkg/package.json'' = Some ''{}''"
  by code_simp

text \<open>
  On a storage without the package directory the exclusive open fails with \<open>ENOENT\<close>,
  and the manifest is written all the same; on one that holds a manifest the result is
  the conflict, and the manifest stays.
\<close>

theorem createPackageNext_conflict_only_on_EEXIST_witness:
  "fst (createPackageNext (posix ''/storage/pkg'' digits) 0 ''pkg'' ''{}'' emptyDisk) = Inr ()
   \<and> files (snd (createPackageNext (posix ''/storage/pkg'' digits) 0 ''pkg'' ''{}'' emptyDisk))
        ''/storage/pkg/package.json'' = Some ''{}''
   \<and> createPackageNext (posix ''/storage/pkg'' digits) 0 ''pkg'' ''{}'' pkgDisk
        = (Inl (fSError fileExist 409), pkgDisk)
   \<and> status (fSError fileExist 409) = Some 409"
  using createPackageNext_conflict_only_on_EEXIST
      [of "posix ''/storage/pkg'' digits" emptyDisk 0 "''pkg''" "''{}''"]
    createPackageNext_conflict_only_on_EEXIST
      [of "posix ''/storage/pkg'' digits" pkgDisk 0 "''pkg''" "''{}''"]
    storage_of_package_json open_without_directory open_existing_manifest write_creates_directory
  by (simp add: fSError_def)

subsection \<open>Updating a package under the lock\<close>

text \<open>
  Claim C1. When the update handler fails with \<open>EIO\<close> and the unlock succeeds,
  \<open>updatePackageNext\<close> makes its one unlock attempt and then throws the internal error
  \<open>resource temporarily unavailable\<close>, which is not the error of the handler; the
  callback-based \<open>updatePackage\<close> hands the error of the handler to \<open>onEnd\<close>.
\<close>

theorem updatePackageNext_masks_handler_error:
  "updatePackageNext \<lparr>lockAndReadJSONNext = Inr m, unlockJSONNext = (\<lambda>k. None)\<rparr>
       (\<lambda>manifest. Inl (nodeError ''EIO''))
     = (Inl (getInternalError ''resource temporarily unavailable''), [LockAndRead, Unlock])
   \<and> getInternalError ''resource temporarily unavailable'' \<noteq> nodeError ''EIO''
   \<and> updatePackage \<lparr>lockAndReadJSONNext = Inr m, unlockJSONNext = (\<lambda>k. None)\<rparr>
       (\<lambda>json. Inl (nodeError ''EIO'')) onWrite transformPackage
     = (Some (nodeError ''EIO''), [LockAndRead, Unlock])"
  by (simp add: updatePackageNext_def catchLocked_def updatePackage_def unLockCallback_def
      getInternalError_def getCode_def nodeError_def)

subsection \<open>Reading a tarball\<close>

text \<open>
  Claim C5. With the tarball missing locally and no entry for it in \<open>_distfiles\<close>,
  \<open>getTarballNext\<close> calls \<open>fetchTarllballFromUpstream\<close> with an undefined locator and returns
  or throws whatever that call yields. The callback-based \<open>getTarball\<close>, on the same
  manifest and with no uplink to ask, emits the not-found error of the local read.
\<close>

theorem getTarballNext_fetches_undefined_url:
  "getTarballNext
       \<lparr>getPackageLocalMetadata = (\<lambda>_. Inr (generatePackageTemplate ''pkg'')),
        syncUplinksMetadataNext = sy, fetchTarllballFromUpstream = fetch\<rparr>
       ''pkg'' ''pkg-1.0.0.tgz'' (Inl (nodeError ''ENOENT''))
     = (map_sum id Some (fetch ''pkg'' None), [(''pkg'', None)])
   \<and> getTarball (exampleStorage [] 0 respond (Inr (generatePackageTemplate ''pkg'')))
       ''pkg'' ''pkg-1.0.0.tgz'' (LocalError False (getNotFound ''no such file available''))
     = EmitError (getNotFound ''no such file available'')"
proof
  show "getTarballNext
       \<lparr>getPackageLocalMetadata = (\<lambda>_. Inr (generatePackageTemplate ''pkg'')),
        syncUplinksMetadataNext = sy, fetchTarllballFromUpstream = fetch\<rparr>
       ''pkg'' ''pkg-1.0.0.tgz'' (Inl (nodeError ''ENOENT''))
     = (map_sum id Some (fetch ''pkg'' None), [(''pkg'', None)])"
    by (cases "fetch ''pkg'' None")
      (simp_all add: getTarballNext_def nodeError_def STORAGE_NO_SUCH_FILE_ERROR_def
        generatePackageTemplate_def)
next
  show "getTarball (exampleStorage [] 0 respond (Inr (generatePackageTemplate ''pkg'')))
       ''pkg'' ''pkg-1.0.0.tgz'' (LocalError False (getNotFound ''no such file available''))
     = EmitError (getNotFound ''no such file available'')"
    by (simp add: getTarball_def getNotFound_def getCode_def exampleStorage_def
        generatePackageTemplate_def syncUplinksMetadata_def selectedUplinks_def afterSync_def
        networkCalls_def)
qed

subsection \<open>Paths of tarballs\<close>

text \<open>
  Claim C8. For the file name \<open>../evil\<close> and the package directory \<open>/storage/pkg\<close>, the
  final path that \<open>writeTarballNext\<close> computes goes through \<open>_getStorage\<close> and stays inside
  the directory, but the staging path is joined from the raw name: it is
  \<open>/storage/evil.tmp-7\<close>, outside the directory, and the bytes written are stored there.
\<close>

theorem writeTarballNext_stages_outside_root:
  "w_temporalName (writeTarballNext (posix ''/storage/pkg'' digits) 0 ''../evil'')
     = ''/storage/evil.tmp-7''
   \<and> \<not> inside ''/storage/pkg'' ''/storage/evil.tmp-7''
   \<and> files (snd (streamEvents (posix ''/storage/pkg'' digits) 0 [Open, Write ''x'']
             (writeTarballNext (posix ''/storage/pkg'' digits) 0 ''../evil'', tarDisk)))
        ''/storage/evil.tmp-7'' = Some ''x''
   \<and> w_pathName (writeTarballNext (posix ''/storage/pkg'' digits) 0 ''../evil'')
     = ''/storage/pkg/..evil''
   \<and> inside ''/storage/pkg'' ''/storage/pkg/..evil''"
  by code_simp

subsection \<open>Cancelling an upload\<close>

text \<open>
  Claim C4. A stream of \<open>writeTarballNext\<close> that was opened, received the bytes
  \<open>partial\<close> and was then aborted through its signal leaves these bytes under the final
  name: the listener of \<open>close\<close> that renames the staging file runs before the listeners
  that remove it. The same upload through \<open>writeTarball\<close>, ended by \<open>abort()\<close>, leaves no
  final file.
\<close>

theorem writeTarballNext_abort_publishes_partial_file:
  "files (snd (streamEvents (posix ''/storage/pkg'' digits) 0 [Open, Write ''partial'', AbortSignal]
             (writeTarballNext (posix ''/storage/pkg'' digits) 0 ''pkg-1.0.0.tgz'', tarDisk)))
        ''/storage/pkg/pkg-1.0.0.tgz'' = Some ''partial''
   \<and> files (snd (fold (uploadStep (posix ''/storage/pkg'' digits) 0 ''pkg-1.0.0.tgz'')
             [AccessDone, FileOpen, FileWrite ''partial'', Abort, FileClose]
             (writeTarball (posix ''/storage/pkg'' digits) ''pkg-1.0.0.tgz'', tarDisk)))
        ''/storage/pkg/pkg-1.0.0.tgz'' = None"
  by code_simp

subsection \<open>Synchronising with the uplinks\<close>


lemma onResponse_thrown:
  "onResponse self pkgName upLink upLinkMeta r st = (Inl thrown, st') \<Longrightarrow> thrown = stampError"
  by (auto simp: onResponse_def stamp304_def Let_def split: option.splits if_splits sum.splits)

lemma mapResponses_thrown:
  "mapResponses self pkgName start requests st = (Inl thrown, st') \<Longrightarrow> thrown = stampError"
proof (induction self pkgName start requests st arbitrary: thrown st' rule: mapResponses.induct)
  case (1 self pkgName start st)
  then show ?case by simp
next
  case (2 self pkgName start upLink rest st)
  then show ?case by (auto split: prod.splits sum.splits)
next
  case (3 self pkgName start upLink tag rest st)
  then show ?case by (auto split: prod.splits sum.splits dest: onResponse_thrown)
qed















subsection \<open>Escalation of timeouts\<close>

lemma onResponse_plain_failure:
  "r_err r = Some e \<Longrightarrow> remoteStatus e \<noteq> Some 304 \<Longrightarrow>
   onResponse self pkgName upLink upLinkMeta r st = (Inr (Some [e]), st)"
  by (simp add: onResponse_def)

lemma mapResponses_all_fail:
  "\<forall>u \<in> set ups. r_err (getRemoteMetadata self (upname u) pkgName tag) = Some (errOf u)
                   \<and> remoteStatus (errOf u) \<noteq> Some 304 \<Longrightarrow>
   mapResponses self pkgName start (map (\<lambda>u. (u, Ask tag)) ups) st
     = (Inr (map (\<lambda>u. Some [errOf u]) ups), st)"
  by (induction ups) (simp_all add: onResponse_plain_failure)

lemma outerLoop_single_errors:
  "outerLoop (map (\<lambda>u. Some [errOf u]) ups) flag
     = (flag \<or> (\<exists>u \<in> set ups. isTimeoutCode (code (errOf u))))"
  by (induction ups arbitrary: flag) auto

lemma template_requests:
  "map (\<lambda>u. (u, iteratee self options (generatePackageTemplate pkgName) u)) ups
     = map (\<lambda>u. (u, Ask (o_etag options))) ups"
  by (simp add: iteratee_def isFresh_def requestEtag_def generatePackageTemplate_def)

text \<open>
  Claim C2, amended. When the package is absent locally and every selected uplink fails
  with an error other than a \<open>304\<close> answer, the sync reports SERVICE_UNAVAILABLE if at
  least one of these errors has the code \<open>ETIMEDOUT\<close>, \<open>ESOCKETTIMEDOUT\<close> or \<open>ECONNRESET\<close>,
  and NOT_FOUND otherwise (so also when no uplink is selected); the errors of the
  uplinks are handed over with it.
\<close>

theorem any_timeout_escalates:
  assumes "\<forall>u \<in> set (selectedUplinks self pkgName options).
             r_err (getRemoteMetadata self (upname u) pkgName (o_etag options)) = Some (errOf u)
             \<and> remoteStatus (errOf u) \<noteq> Some 304"
  shows "fst (syncUplinksMetadata self pkgName None options)
           = Callback
               (Some (if \<exists>u \<in> set (selectedUplinks self pkgName options).
                            isTimeoutCode (code (errOf u))
                      then getServiceUnavailable else getNotFound API_ERROR_NO_PACKAGE))
               None
               (Some (map (\<lambda>u. OfUplink (Some [errOf u])) (selectedUplinks self pkgName options)))"
proof -
  let ?ups = "selectedUplinks self pkgName options"
  let ?start = "generatePackageTemplate pkgName"
  have "mapResponses self pkgName ?start
          (map (\<lambda>u. (u, iteratee self options ?start u)) ?ups)
          \<lparr>packageInfo = ?start, found = False\<rparr>
        = (Inr (map (\<lambda>u. Some [errOf u]) ?ups), \<lparr>packageInfo = ?start, found = False\<rparr>)"
    unfolding template_requests using assms by (rule mapResponses_all_fail)
  then show ?thesis
    by (simp add: syncUplinksMetadata_def Let_def outerLoop_single_errors comp_def)
qed

lemma two_selected: "selectedUplinks twoUplinks ''pkg'' noOptions = [npmjs, mirror]"
  by (simp add: selectedUplinks_def twoUplinks_def exampleStorage_def noOptions_def)

lemma two_responses:
  "getRemoteMetadata twoUplinks (upname u) ''pkg'' tag = failure (timeoutAndMissError u)"
  by (simp add: twoUplinks_def exampleStorage_def timeoutAndMiss_def timeoutAndMissError_def)

theorem any_timeout_escalates_witness:
  "fst (syncUplinksMetadata twoUplinks ''pkg'' None noOptions)
     = Callback (Some getServiceUnavailable) None
         (Some [OfUplink (Some [nodeError ''ETIMEDOUT'']),
                OfUplink (Some [getNotFound API_ERROR_NO_PACKAGE])])"
  using any_timeout_escalates [of twoUplinks "''pkg''" noOptions timeoutAndMissError]
  by (simp add: two_selected two_responses failure_def timeoutAndMissError_def npmjs_def mirror_def
      nodeError_def getNotFound_def getCode_def isTimeoutCode_def)

text \<open>
  One uplink times out and the other reports that the package does not exist: not all
  errors are of the timeout class, and the result is SERVICE_UNAVAILABLE, not NOT_FOUND.
\<close>

theorem one_timeout_counterexample:
  "fst (syncUplinksMetadata twoUplinks ''pkg'' None noOptions)
     = Callback (Some getServiceUnavailable) None
         (Some [OfUplink (Some [nodeError ''ETIMEDOUT'']),
                OfUplink (Some [getNotFound API_ERROR_NO_PACKAGE])])
   \<and> \<not> isTimeoutCode (code (getNotFound API_ERROR_NO_PACKAGE))
   \<and> getServiceUnavailable \<noteq> getNotFound API_ERROR_NO_PACKAGE"
proof (intro conjI)
  let ?start = "generatePackageTemplate ''pkg''"
  have eq: "mapResponses twoUplinks ''pkg'' ?start
          (map (\<lambda>u. (u, iteratee twoUplinks noOptions ?start u))
             (selectedUplinks twoUplinks ''pkg'' noOptions))
          \<lparr>packageInfo = ?start, found = False\<rparr>
        = (Inr (map (\<lambda>u. Some [timeoutAndMissError u]) [npmjs, mirror]),
           \<lparr>packageInfo = ?start, found = False\<rparr>)"
    unfolding template_requests two_selected
    by (rule mapResponses_all_fail)
      (simp add: two_responses failure_def timeoutAndMissError_def npmjs_def mirror_def
        nodeError_def getNotFound_def getCode_def)
  have "fst (syncUplinksMetadata twoUplinks ''pkg'' None noOptions)
     = Callback
         (Some (if \<exists>u \<in> set [npmjs, mirror]. isTimeoutCode (code (timeoutAndMissError u))
                then getServiceUnavailable else getNotFound API_ERROR_NO_PACKAGE))
         None (Some (map (\<lambda>u. OfUplink (Some [timeoutAndMissError u])) [npmjs, mirror]))"
    by (simp add: syncUplinksMetadata_def Let_def eq outerLoop_single_errors comp_def)
  then show "fst (syncUplinksMetadata twoUplinks ''pkg'' None noOptions)
     = Callback (Some getServiceUnavailable) None
         (Some [OfUplink (Some [nodeError ''ETIMEDOUT'']),
                OfUplink (Some [getNotFound API_ERROR_NO_PACKAGE])])"
    by (simp add: timeoutAndMissError_def npmjs_def mirror_def isTimeoutCode_def nodeError_def)
  show "\<not> isTimeoutCode (code (getNotFound API_ERROR_NO_PACKAGE))"
    by (simp add: isTimeoutCode_def getNotFound_def getCode_def)
  show "getServiceUnavailable \<noteq> getNotFound API_ERROR_NO_PACKAGE"
    by (simp add: getServiceUnavailable_def getNotFound_def getCode_def)
qed

subsection \<open>Reading a package\<close>











subsection \<open>Conflicting uploads\<close>













end
